theory Spec2Isabelle
  imports Complex_Main
begin

section \<open>Conventions of the embedding\<close>

text \<open>
  The Python sources under \<open>src/core\<close> are embedded function by function. Python
  floats (percentages, seconds, reduction fractions) are read as real numbers, Python
  integers as \<open>int\<close> or \<open>nat\<close>, \<open>str\<close> and \<open>bytes\<close> as lists of characters and of
  bytes, a dict as a map. A clock reading is a real number of seconds. Mutation of an
  object is explicit state passing; what the operating system or a library returns
  (metrics, file contents, I/O failures, digests, ciphertexts) is an argument of the
  function that asks for it.
\<close>

type_synonym bytes = "nat list"
type_synonym path = "string list"

definition py_int :: "real \<Rightarrow> int" where
  \<comment> \<open>Python's \<open>int(x)\<close> on a float: truncation toward zero.\<close>
  "py_int x = (if 0 \<le> x then \<lfloor>x\<rfloor> else \<lceil>x\<rceil>)"

definition startswith :: "string \<Rightarrow> string \<Rightarrow> bool" where
  \<comment> \<open>\<open>s.startswith(p)\<close>.\<close>
  "startswith s p = (take (length p) s = p)"

section \<open>Scan optimizer (scan\_optimizer.py) and the memory throttle handler (engine.py)\<close>

record ScanBatch =
  files :: "path list"
  total_size :: int
  start_time :: real
  end_time :: real

definition duration :: "ScanBatch \<Rightarrow> real" where
  \<comment> \<open>A float is falsy exactly when it is zero.\<close>
  "duration b =
     (if end_time b \<noteq> 0 \<and> start_time b \<noteq> 0 then end_time b - start_time b else 0)"

definition files_per_second :: "ScanBatch \<Rightarrow> real" where
  "files_per_second b =
     (if duration b > 0 then real (length (files b)) / duration b else 0)"

record ScanOptimizer =
  target_speed :: int
  batch_size :: int
  max_batch_size :: int
  min_batch_size :: int

definition ScanOptimizer_init :: "int \<Rightarrow> ScanOptimizer" where
  "ScanOptimizer_init ts =
     \<lparr>target_speed = ts, batch_size = 1000, max_batch_size = 5000, min_batch_size = 100\<rparr>"

definition adjust_batch_size :: "ScanBatch \<Rightarrow> ScanOptimizer \<Rightarrow> ScanOptimizer" where
  "adjust_batch_size last_batch opt =
     (if files_per_second last_batch < of_int (target_speed opt) * 0.8 then
        opt\<lparr>batch_size := max (min_batch_size opt) (py_int (of_int (batch_size opt) * 0.8))\<rparr>
      else if files_per_second last_batch > of_int (target_speed opt) * 1.2 then
        opt\<lparr>batch_size := min (max_batch_size opt) (py_int (of_int (batch_size opt) * 1.2))\<rparr>
      else opt)"

definition handle_memory_throttle :: "real \<Rightarrow> ScanOptimizer \<Rightarrow> ScanOptimizer" where
  \<comment> \<open>\<open>ScanEngine._handle_memory_throttle\<close>, which writes \<open>self.optimizer.batch_size\<close>.\<close>
  "handle_memory_throttle reduction opt =
     opt\<lparr>batch_size :=
           max (min_batch_size opt) (py_int (of_int (batch_size opt) * (1 - reduction)))\<rparr>"

datatype batch_op = AdjustBatchSize ScanBatch | MemoryThrottle real

fun apply_batch_op :: "batch_op \<Rightarrow> ScanOptimizer \<Rightarrow> ScanOptimizer" where
  "apply_batch_op (AdjustBatchSize b) opt = adjust_batch_size b opt"
| "apply_batch_op (MemoryThrottle r) opt = handle_memory_throttle r opt"

fun run_batch_ops :: "batch_op list \<Rightarrow> ScanOptimizer \<Rightarrow> ScanOptimizer" where
  "run_batch_ops [] opt = opt"
| "run_batch_ops (x # xs) opt = run_batch_ops xs (apply_batch_op x opt)"

fun reduction_of :: "batch_op \<Rightarrow> real" where
  \<comment> \<open>The reduction fraction a memory-throttle callback is passed (0 for the other operation).\<close>
  "reduction_of (AdjustBatchSize b) = 0"
| "reduction_of (MemoryThrottle r) = r"

definition batch_size_in_bounds :: "ScanOptimizer \<Rightarrow> bool" where
  "batch_size_in_bounds opt =
     (min_batch_size opt = 100 \<and> max_batch_size opt = 5000 \<and>
      100 \<le> batch_size opt \<and> batch_size opt \<le> 5000)"

section \<open>System health monitor (system\_health\_monitor.py)\<close>

record HealthThresholds =
  min_disk_space :: nat
  max_memory_usage :: real
  max_cpu_temp :: real
  max_cpu_usage :: real
  min_disk_free :: real

definition default_thresholds :: HealthThresholds where
  "default_thresholds =
     \<lparr>min_disk_space = 1024 * 1024 * 1024, max_memory_usage = 85, max_cpu_temp = 85,
      max_cpu_usage = 90, min_disk_free = 10\<rparr>"

text \<open>
  What one run of \<open>_check_system_health\<close> reads from \<open>psutil\<close>: \<open>disk_usage('/')\<close>,
  \<open>virtual_memory()\<close>, \<open>cpu_percent()\<close>, \<open>sensors_temperatures()\<close> (a list of sensor
  names with their readings in dict order, or \<open>None\<close> when the call raises, which the
  bare \<open>except\<close> swallows) and \<open>disk_io_counters()\<close>.
\<close>

record telemetry =
  disk_free :: nat
  disk_percent :: real
  memory_percent :: real
  memory_available :: nat
  cpu_percent :: real
  sensors_temperatures :: "(string \<times> real list) list option"
  disk_io_counters :: "(string \<times> nat) list"

record HealthStatus =
  timestamp :: real
  disk_space :: nat
  disk_usage :: real
  memory_usage :: real
  hs_memory_available :: nat
  cpu_usage :: real
  cpu_temp :: "real option"
  io_counters :: "(string \<times> nat) list"
  critical_services :: "(string \<times> bool) list"
  status :: string
  issues :: "string list"

definition monitored_services :: "string list" where
  "monitored_services = [''antivirus'', ''realtime_protection'', ''update_service'']"

definition check_critical_services :: "string list \<Rightarrow> (string \<times> bool) list" where
  \<comment> \<open>Each service is recorded with \<open>'running': True\<close>; the \<open>except\<close> branch guards a
      dict literal and is never taken.\<close>
  "check_critical_services services = map (\<lambda>s. (s, True)) services"

fun first_reading :: "(string \<times> real list) list \<Rightarrow> real option" where
  \<comment> \<open>The loop over \<open>temps.items()\<close>: the first sensor with a reading, then \<open>break\<close>.\<close>
  "first_reading [] = None"
| "first_reading ((name, []) # rest) = first_reading rest"
| "first_reading ((name, e # es) # rest) = Some e"

definition read_cpu_temp :: "telemetry \<Rightarrow> real option" where
  "read_cpu_temp t =
     (case sensors_temperatures t of None \<Rightarrow> None | Some temps \<Rightarrow> first_reading temps)"

definition health_issues ::
  "(real \<Rightarrow> string) \<Rightarrow> HealthThresholds \<Rightarrow> string list \<Rightarrow> telemetry \<Rightarrow> string list" where
  \<comment> \<open>The issue list in the order the source appends to it. \<open>fmt\<close> is the format
      \<open>:.1f\<close> of the f-strings; the degree sign is written as its two UTF-8 bytes.\<close>
  "health_issues fmt th services t =
     (if disk_free t < min_disk_space th
      then [''Low disk space: '' @ fmt (real (disk_free t) / 1024 / 1024 / 1024) @ ''GB free'']
      else []) @
     (if memory_percent t > max_memory_usage th
      then [''High memory usage: '' @ fmt (memory_percent t) @ ''%'']
      else []) @
     (if cpu_percent t > max_cpu_usage th
      then [''High CPU usage: '' @ fmt (cpu_percent t) @ ''%'']
      else []) @
     (case read_cpu_temp t of
        None \<Rightarrow> []
      | Some temp \<Rightarrow>
          if temp > max_cpu_temp th
          then [''High CPU temperature: '' @ fmt temp @ [CHR 0xC2, CHR 0xB0] @ ''C'']
          else []) @
     map (\<lambda>(service, running). ''Critical service not running: '' @ service)
       (filter (\<lambda>(service, running). \<not> running) (check_critical_services services))"

definition overall_status :: "string list \<Rightarrow> string" where
  "overall_status issue_list =
     (if list_ex (\<lambda>i. startswith i ''Critical'') issue_list then ''critical''
      else if issue_list \<noteq> [] then ''warning''
      else ''healthy'')"

definition check_system_health ::
  "(real \<Rightarrow> string) \<Rightarrow> HealthThresholds \<Rightarrow> string list \<Rightarrow> real \<Rightarrow> telemetry \<Rightarrow> HealthStatus" where
  "check_system_health fmt th services now t =
     \<lparr>timestamp = now,
      disk_space = disk_free t,
      disk_usage = disk_percent t,
      memory_usage = memory_percent t,
      hs_memory_available = memory_available t,
      cpu_usage = cpu_percent t,
      cpu_temp = read_cpu_temp t,
      io_counters = disk_io_counters t,
      critical_services = check_critical_services services,
      status = overall_status (health_issues fmt th services t),
      issues = health_issues fmt th services t\<rparr>"

text \<open>
  \<open>get_current_health\<close> reads the last entry of the health history; an empty history
  gives the empty dict, which \<open>adjust_intensity\<close> treats as "no health" (\<open>None\<close> here).
  Only the keys that the intensity manager reads are kept.
\<close>

record health_dict =
  h_status :: string
  h_memory_usage :: real
  h_cpu_usage :: real
  h_disk_usage :: real

definition get_current_health :: "HealthStatus list \<Rightarrow> health_dict option" where
  "get_current_health health_history =
     (if health_history = [] then None
      else let latest = last health_history in
        Some \<lparr>h_status = status latest, h_memory_usage = memory_usage latest,
              h_cpu_usage = cpu_usage latest, h_disk_usage = disk_usage latest\<rparr>)"

section \<open>Scan intensity manager (scan\_intensity\_manager.py)\<close>

record ScanProfile =
  name :: string
  thread_count :: int
  profile_batch_size :: int
  throttle_delay :: real
  profile_max_cpu_usage :: real
  profile_max_memory_usage :: real
  max_io_rate :: real
  description :: string

record ScanIntensityManager =
  current_profile :: string
  last_adjustment :: real
  adjustment_cooldown :: real
  profiles :: "string \<rightharpoonup> ScanProfile"

definition default_profiles :: "string \<rightharpoonup> ScanProfile" where
  "default_profiles =
     [''aggressive'' \<mapsto>
        \<lparr>name = ''aggressive'', thread_count = 8, profile_batch_size = 5000,
         throttle_delay = 0, profile_max_cpu_usage = 80, profile_max_memory_usage = 512,
         max_io_rate = 100, description = ''Maximum performance, high resource usage''\<rparr>,
      ''balanced'' \<mapsto>
        \<lparr>name = ''balanced'', thread_count = 4, profile_batch_size = 2000,
         throttle_delay = 0.05, profile_max_cpu_usage = 50, profile_max_memory_usage = 384,
         max_io_rate = 50, description = ''Balanced performance and resource usage''\<rparr>,
      ''conservative'' \<mapsto>
        \<lparr>name = ''conservative'', thread_count = 2, profile_batch_size = 1000,
         throttle_delay = 0.1, profile_max_cpu_usage = 30, profile_max_memory_usage = 256,
         max_io_rate = 25, description = ''Minimal resource usage, lower performance''\<rparr>,
      ''minimal'' \<mapsto>
        \<lparr>name = ''minimal'', thread_count = 1, profile_batch_size = 500,
         throttle_delay = 0.2, profile_max_cpu_usage = 20, profile_max_memory_usage = 128,
         max_io_rate = 10, description = ''Emergency mode, lowest resource usage''\<rparr>]"

definition ScanIntensityManager_init :: "real \<Rightarrow> ScanIntensityManager" where
  \<comment> \<open>\<open>__init__\<close> at clock reading \<open>now\<close>; five minutes are 300 seconds.\<close>
  "ScanIntensityManager_init now =
     \<lparr>current_profile = ''balanced'', last_adjustment = now, adjustment_cooldown = 300,
      profiles = default_profiles\<rparr>"

definition select_profile :: "health_dict \<Rightarrow> string" where
  "select_profile health =
     (if h_status health = ''critical'' then ''minimal''
      else if h_memory_usage health > 90 then ''minimal''
      else if h_memory_usage health > 75 then ''conservative''
      else if h_cpu_usage health > 85 then ''minimal''
      else if h_cpu_usage health > 70 then ''conservative''
      else if h_disk_usage health > 95 then ''minimal''
      else if h_disk_usage health > 85 then ''conservative''
      else if h_status health = ''healthy'' \<and> h_memory_usage health < 50 \<and>
              h_cpu_usage health < 40 \<and> h_disk_usage health < 70 then ''aggressive''
      else ''balanced'')"

definition adjust_intensity ::
  "real \<Rightarrow> real \<Rightarrow> HealthStatus list \<Rightarrow> ScanIntensityManager \<Rightarrow>
   ScanProfile option \<times> ScanIntensityManager" where
  \<comment> \<open>\<open>now\<close> is the clock reading of the cooldown check, \<open>now'\<close> the one stored on a
      change. A missing key of \<open>self.profiles\<close> raises KeyError, which the \<open>except\<close>
      turns into \<open>None\<close> before anything is assigned.\<close>
  "adjust_intensity now now' health_history m =
     (if now - last_adjustment m < adjustment_cooldown m then (None, m)
      else case get_current_health health_history of
        None \<Rightarrow> (None, m)
      | Some health \<Rightarrow>
          let new_profile = select_profile health in
          if new_profile \<noteq> current_profile m then
            (case profiles m (current_profile m) of
               None \<Rightarrow> (None, m)
             | Some old_profile \<Rightarrow>
                 (case profiles m new_profile of
                    None \<Rightarrow> (None, m)
                  | Some new_profile_config \<Rightarrow>
                      (Some new_profile_config,
                       m\<lparr>current_profile := new_profile, last_adjustment := now'\<rparr>)))
          else (None, m))"

section \<open>Detection engine: \<open>ScanEngine.scan_file\<close> (engine.py)\<close>

record threat =
  threat_type :: string
  details :: string
  severity :: nat

text \<open>
  What the file system holds at \<open>file_path\<close> while one file is scanned: the answers of
  \<open>exists()\<close>, \<open>is_file()\<close> and \<open>stat().st_size\<close>, the path's \<open>suffix\<close> and its
  \<open>lower()\<close>, and the outcome of the two reads of the file: the one made by
  \<open>_calculate_file_hash\<close> and the one made by the content analysis. A read is either
  the bytes read or the message of the exception raised.
\<close>

record file_info =
  file_exists :: bool
  is_file :: bool
  st_size :: nat
  suffix :: string
  suffix_lower :: string
  hash_read :: "string + bytes"
  analysis_read :: "string + bytes"

text \<open>
  The engine's detection data and the libraries it calls: the hash, pattern and extension
  tables of \<open>virus_signatures\<close> (a pattern is given by what \<open>re.search\<close> answers on a
  content), \<open>hashlib.sha256(...).hexdigest()\<close>, \<open>HAS_MAGIC\<close> with the result of
  \<open>magic.from_file\<close> (\<open>None\<close>: it raises), and the compiled YARA rules (\<open>None\<close> when
  compilation failed; a match returns the matching rule names, or \<open>None\<close> when it raises).
\<close>

record scan_env =
  hashes :: "string set"
  patterns :: "(bytes \<Rightarrow> bool) list"
  suspicious_extensions :: "string set"
  sha256_hexdigest :: "bytes \<Rightarrow> string"
  has_magic :: bool
  magic_from_file :: "string option"
  yara_compiler :: "(bytes \<Rightarrow> string list option) option"

datatype scan_event =
  ReadForHash | MagicProbe | ReadForAnalysis | PatternSearch nat | YaraScan

datatype scan_result =
  ScanError string string
| ScanSkipped string string
| Scanned string string "threat list" string string

fun result_status :: "scan_result \<Rightarrow> string" where
  "result_status (ScanError file_path err) = ''error''"
| "result_status (ScanSkipped file_path reason) = ''skipped''"
| "result_status (Scanned file_path st threats file_hash file_type) = st"

fun result_threats :: "scan_result \<Rightarrow> threat list" where
  "result_threats (Scanned file_path st threats file_hash file_type) = threats"
| "result_threats r = []"

definition suspicious_extension_threat :: "string \<Rightarrow> threat" where
  "suspicious_extension_threat sfx =
     \<lparr>threat_type = ''suspicious_extension'',
      details = ''Suspicious file extension: '' @ sfx, severity = 3\<rparr>"

definition known_malware_threat :: threat where
  "known_malware_threat =
     \<lparr>threat_type = ''known_malware'',
      details = ''File matches known malware signature'', severity = 10\<rparr>"

definition suspicious_pattern_threat :: threat where
  "suspicious_pattern_threat =
     \<lparr>threat_type = ''suspicious_pattern'',
      details = ''File contains suspicious code patterns'', severity = 7\<rparr>"

definition yara_match_threat :: "string \<Rightarrow> threat" where
  "yara_match_threat rule =
     \<lparr>threat_type = ''yara_match'', details = ''Matched YARA rule: '' @ rule, severity = 8\<rparr>"

fun search_patterns :: "(bytes \<Rightarrow> bool) list \<Rightarrow> bytes \<Rightarrow> nat \<Rightarrow> bool \<times> scan_event list" where
  \<comment> \<open>The loop over the patterns, which stops at the first one that matches.\<close>
  "search_patterns [] c k = (False, [])"
| "search_patterns (p # ps) c k =
     (if p c then (True, [PatternSearch k])
      else (fst (search_patterns ps c (Suc k)),
            PatternSearch k # snd (search_patterns ps c (Suc k))))"

definition analyze_content ::
  "scan_env \<Rightarrow> file_info \<Rightarrow> threat list \<Rightarrow> threat list \<times> string \<times> scan_event list" where
  \<comment> \<open>Step 4, the inner \<open>try\<close>: an exception ends the block and keeps the threats
      appended so far and the \<open>file_type\<close> assigned so far.\<close>
  "analyze_content env f threats =
     (let probe = (if has_magic env then [MagicProbe] else []) in
      case (if has_magic env then magic_from_file env
            else Some (if suffix f \<noteq> [] then tl (suffix_lower f) else ''unknown'')) of
        None \<Rightarrow> (threats, ''unknown'', probe)
      | Some file_type \<Rightarrow>
          (case analysis_read f of
             Inl msg \<Rightarrow> (threats, file_type, probe @ [ReadForAnalysis])
           | Inr c \<Rightarrow>
               let found = search_patterns (patterns env) c 0;
                   threats' = threats @ (if fst found then [suspicious_pattern_threat] else []);
                   evs = probe @ ReadForAnalysis # snd found
               in (case yara_compiler env of
                     None \<Rightarrow> (threats', file_type, evs)
                   | Some match \<Rightarrow>
                       (case match c of
                          None \<Rightarrow> (threats', file_type, evs @ [YaraScan])
                        | Some rules \<Rightarrow>
                            (threats' @ map yara_match_threat rules, file_type,
                             evs @ [YaraScan])))))"

definition scan_file :: "scan_env \<Rightarrow> string \<Rightarrow> file_info \<Rightarrow> scan_result \<times> scan_event list" where
  \<comment> \<open>The result dict and the reads, probes and matches made on the file's content, in
      order. An exception of the hash computation reaches the outer \<open>except\<close>.\<close>
  "scan_file env file_path f =
     (if \<not> file_exists f \<or> \<not> is_file f then
        (ScanError file_path ''File not found or not accessible'', [])
      else if st_size f > 100 * 1024 * 1024 then
        (ScanSkipped file_path ''File too large'', [])
      else
        let threats = (if suffix_lower f \<in> suspicious_extensions env
                       then [suspicious_extension_threat (suffix f)] else [])
        in case hash_read f of
             Inl msg \<Rightarrow> (ScanError file_path msg, [ReadForHash])
           | Inr c \<Rightarrow>
               let file_hash = sha256_hexdigest env c;
                   threats' = threats @ (if file_hash \<in> hashes env
                                         then [known_malware_threat] else []);
                   analysis = analyze_content env f threats'
               in (Scanned file_path
                     (if fst analysis \<noteq> [] then ''infected'' else ''clean'')
                     (fst analysis) file_hash (fst (snd analysis)),
                   ReadForHash # snd (snd analysis)))"

section \<open>Resource throttler (resource\_throttler.py)\<close>

record ThrottleRule =
  resource :: string
  threshold :: real
  reduction :: real
  cooldown :: int
  priority :: int

text \<open>
  The throttler object. \<open>throttle_lock\<close> is a \<open>threading.Lock\<close>, which is not
  re-entrant: \<open>lock_held\<close> says whether it is taken. A registered callback is named by a
  number; what calling it does to its owner is outside the throttler, so a call is
  recorded as an event.
\<close>

record ResourceThrottler =
  lock_held :: bool
  is_throttled :: bool
  throttle_start :: "real option"
  current_rules :: "ThrottleRule list"
  throttle_callbacks :: "string \<rightharpoonup> nat list"
  rules :: "ThrottleRule list"

definition default_rules :: "ThrottleRule list" where
  "default_rules =
     [\<lparr>resource = ''cpu'', threshold = 80, reduction = 0.5, cooldown = 30, priority = 8\<rparr>,
      \<lparr>resource = ''memory'', threshold = 85, reduction = 0.4, cooldown = 60, priority = 9\<rparr>,
      \<lparr>resource = ''disk_io'', threshold = 90, reduction = 0.6, cooldown = 20, priority = 7\<rparr>]"

definition ResourceThrottler_init :: ResourceThrottler where
  "ResourceThrottler_init =
     \<lparr>lock_held = False, is_throttled = False, throttle_start = None, current_rules = [],
      throttle_callbacks = [''cpu'' \<mapsto> [], ''memory'' \<mapsto> [], ''disk_io'' \<mapsto> []],
      rules = default_rules\<rparr>"

definition register_callback :: "string \<Rightarrow> nat \<Rightarrow> ResourceThrottler \<Rightarrow> ResourceThrottler" where
  "register_callback res callback s =
     (case throttle_callbacks s res of
        None \<Rightarrow> s
      | Some cbs \<Rightarrow> s\<lparr>throttle_callbacks := (throttle_callbacks s)(res \<mapsto> cbs @ [callback])\<rparr>)"

text \<open>
  The events of one call: the three \<open>psutil\<close> samples and the callback invocations
  (resource, callback, reduction passed), each followed by \<open>CallbackFailed\<close> when the
  callback raised and the exception was logged.
\<close>

datatype throttle_event =
  SampledCpu | SampledMemory | SampledDiskIO
| Invoked string nat real
| CallbackFailed nat

text \<open>
  A call returns a value, raises, or blocks for ever on \<open>throttle_lock\<close>; each outcome
  carries the object as the call left it and the events so far.
\<close>

datatype 'a outcome =
  Returned 'a ResourceThrottler "throttle_event list"
| Raised string ResourceThrottler "throttle_event list"
| Blocked ResourceThrottler "throttle_event list"

fun outcome_events :: "'a outcome \<Rightarrow> throttle_event list" where
  "outcome_events (Returned v s evs) = evs"
| "outcome_events (Raised e s evs) = evs"
| "outcome_events (Blocked s evs) = evs"

fun outcome_state :: "'a outcome \<Rightarrow> ResourceThrottler" where
  "outcome_state (Returned v s evs) = s"
| "outcome_state (Raised e s evs) = s"
| "outcome_state (Blocked s evs) = s"

fun returned_value :: "'a outcome \<Rightarrow> 'a option" where
  "returned_value (Returned v s evs) = Some v"
| "returned_value (Raised e s evs) = None"
| "returned_value (Blocked s evs) = None"

definition with_lock ::
  "(ResourceThrottler \<Rightarrow> 'a outcome) \<Rightarrow> ResourceThrottler \<Rightarrow> 'a outcome" where
  \<comment> \<open>\<open>with self.throttle_lock:\<close> acquiring a lock that is taken never returns; leaving
      the block by \<open>return\<close> or by an exception releases the lock.\<close>
  "with_lock body s =
     (if lock_held s then Blocked s []
      else case body (s\<lparr>lock_held := True\<rparr>) of
             Returned v s' evs \<Rightarrow> Returned v (s'\<lparr>lock_held := False\<rparr>) evs
           | Raised e s' evs \<Rightarrow> Raised e (s'\<lparr>lock_held := False\<rparr>) evs
           | Blocked s' evs \<Rightarrow> Blocked s' evs)"

definition release_throttle :: "ResourceThrottler \<Rightarrow> unit outcome" where
  "release_throttle =
     with_lock (\<lambda>s.
       if is_throttled s
       then Returned () (s\<lparr>is_throttled := False, throttle_start := None, current_rules := []\<rparr>) []
       else Returned () s [])"

fun call_callbacks :: "(nat \<Rightarrow> bool) \<Rightarrow> string \<Rightarrow> real \<Rightarrow> nat list \<Rightarrow> throttle_event list" where
  \<comment> \<open>The inner loop: every callback is called; one that raises is logged and the loop
      goes on.\<close>
  "call_callbacks raises res red [] = []"
| "call_callbacks raises res red (cb # cbs) =
     Invoked res cb red # (if raises cb then [CallbackFailed cb] else []) @
     call_callbacks raises res red cbs"

fun apply_rules ::
  "(nat \<Rightarrow> bool) \<Rightarrow> (string \<rightharpoonup> nat list) \<Rightarrow> ThrottleRule list \<Rightarrow> throttle_event list \<times> bool" where
  \<comment> \<open>The loop over the sorted rules. The flag says that \<open>throttle_callbacks[rule.resource]\<close>
      raised KeyError, which ends the loop.\<close>
  "apply_rules raises callbacks [] = ([], False)"
| "apply_rules raises callbacks (rule # rest) =
     (case callbacks (resource rule) of
        None \<Rightarrow> ([], True)
      | Some cbs \<Rightarrow>
          (call_callbacks raises (resource rule) (reduction rule) cbs @
             fst (apply_rules raises callbacks rest),
           snd (apply_rules raises callbacks rest)))"

definition sort_by_priority :: "ThrottleRule list \<Rightarrow> ThrottleRule list" where
  \<comment> \<open>\<open>rules.sort(key=lambda r: r.priority, reverse=True)\<close>: stable, highest priority first.\<close>
  "sort_by_priority rs = sort_key (\<lambda>r. - priority r) rs"

definition apply_throttle ::
  "real \<Rightarrow> (nat \<Rightarrow> bool) \<Rightarrow> ThrottleRule list \<Rightarrow> ResourceThrottler \<Rightarrow> unit outcome" where
  \<comment> \<open>\<open>now\<close> is the reading of \<open>datetime.now()\<close>; \<open>raises\<close> tells which callbacks raise.
      \<open>current_rules\<close> is the list object that is then sorted in place.\<close>
  "apply_throttle now raises triggered =
     with_lock (\<lambda>s.
       let sorted = sort_by_priority triggered;
           s' = s\<lparr>is_throttled := True, throttle_start := Some now, current_rules := sorted\<rparr>;
           run = apply_rules raises (throttle_callbacks s') sorted
       in if snd run then Raised ''KeyError'' s' (fst run) else Returned () s' (fst run))"

fun get_rule :: "ThrottleRule list \<Rightarrow> string \<Rightarrow> ThrottleRule option" where
  \<comment> \<open>\<open>None\<close> stands for the ValueError raised when no rule has the resource.\<close>
  "get_rule [] res = None"
| "get_rule (rule # rest) res = (if resource rule = res then Some rule else get_rule rest res)"

fun cooldown_pending :: "(nat \<Rightarrow> real) \<Rightarrow> real \<Rightarrow> nat \<Rightarrow> ThrottleRule list \<Rightarrow> bool" where
  \<comment> \<open>The loop over \<open>current_rules\<close>; \<open>clock i\<close> is the \<open>i\<close>-th reading of
      \<open>datetime.now()\<close> in the call, one per iteration.\<close>
  "cooldown_pending clock start i [] = False"
| "cooldown_pending clock start i (rule # rest) =
     (if clock i - start < of_int (cooldown rule) then True
      else cooldown_pending clock start (Suc i) rest)"

record metrics =
  m_cpu_percent :: real
  m_memory_percent :: real
  m_disk_io :: "(nat \<times> nat) option"

definition sample_events :: "throttle_event list" where
  "sample_events = [SampledCpu, SampledMemory, SampledDiskIO]"

definition evaluate_triggers ::
  "real \<Rightarrow> (nat \<Rightarrow> bool) \<Rightarrow> metrics \<Rightarrow> ResourceThrottler \<Rightarrow> bool outcome" where
  \<comment> \<open>The second half of \<open>check_resources\<close>, run with the lock held. \<open>m_disk_io\<close> is
      \<open>(read_bytes, write_bytes)\<close>, or \<open>None\<close> when \<open>disk_io_counters()\<close> returns
      \<open>None\<close> and the attribute access raises.\<close>
  "evaluate_triggers now raises m s =
     (case get_rule (rules s) ''cpu'' of
        None \<Rightarrow> Raised ''ValueError'' s sample_events
      | Some cpu_rule \<Rightarrow>
     (case get_rule (rules s) ''memory'' of
        None \<Rightarrow> Raised ''ValueError'' s sample_events
      | Some memory_rule \<Rightarrow>
     (case m_disk_io m of
        None \<Rightarrow> Raised ''AttributeError'' s sample_events
      | Some (read_bytes, write_bytes) \<Rightarrow>
     (case get_rule (rules s) ''disk_io'' of
        None \<Rightarrow> Raised ''ValueError'' s sample_events
      | Some disk_rule \<Rightarrow>
          let triggered_rules =
                (if m_cpu_percent m > threshold cpu_rule then [cpu_rule] else []) @
                (if m_memory_percent m > threshold memory_rule then [memory_rule] else []) @
                (if real (read_bytes + write_bytes) / (1024 * 1024) > threshold disk_rule
                 then [disk_rule] else [])
          in if triggered_rules \<noteq> [] then
               (case apply_throttle now raises triggered_rules s of
                  Returned u s' evs \<Rightarrow> Returned True s' (sample_events @ evs)
                | Raised e s' evs \<Rightarrow> Raised e s' (sample_events @ evs)
                | Blocked s' evs \<Rightarrow> Blocked s' (sample_events @ evs))
             else Returned False s sample_events))))"

definition check_resources ::
  "(nat \<Rightarrow> real) \<Rightarrow> (nat \<Rightarrow> bool) \<Rightarrow> metrics \<Rightarrow> ResourceThrottler \<Rightarrow> bool outcome" where
  \<comment> \<open>\<open>if self.is_throttled and self.throttle_start:\<close> a datetime is truthy, so the
      test is that the flag is set and the timestamp is not \<open>None\<close>. The calls of
      \<open>release_throttle\<close> and \<open>apply_throttle\<close> are made inside the \<open>with\<close> block.\<close>
  "check_resources clock raises m =
     with_lock (\<lambda>s.
       case throttle_start s of
         Some start \<Rightarrow>
           if is_throttled s then
             (if cooldown_pending clock start 0 (current_rules s) then Returned True s []
              else (case release_throttle s of
                      Returned u s' evs \<Rightarrow> Returned False s' evs
                    | Raised e s' evs \<Rightarrow> Raised e s' evs
                    | Blocked s' evs \<Rightarrow> Blocked s' evs))
           else evaluate_triggers (clock 0) raises m s
       | None \<Rightarrow> evaluate_triggers (clock 0) raises m s)"

section \<open>Files, I/O failures and the cryptographic library\<close>

text \<open>
  A file system maps a path (its list of components) to a regular file: its bytes and
  its permission bits. The quarantine metadata file \<open>metadata.json\<close> is kept apart, as
  the mapping it holds; the paths that the operations below are given are not that file.
\<close>

record regular_file =
  content :: bytes
  st_mode :: nat

type_synonym filesystem = "path \<rightharpoonup> regular_file"

record 'e store =
  fs :: filesystem
  metadata :: "string \<rightharpoonup> 'e"

text \<open>
  What the environment does during one operation: which kind of I/O step raises
  (reading a file, creating or writing one, reading and parsing the metadata file,
  writing it, the overwrite passes of a secure delete, \<open>unlink\<close>, \<open>chmod\<close>), what
  \<open>os.urandom\<close> and \<open>datetime.now().strftime(...)\<close> return, and the mode a newly
  created file gets. A step that raises is taken to raise before it changes anything.
\<close>

record io_env =
  read_fails :: bool
  write_fails :: bool
  load_fails :: bool
  save_fails :: bool
  overwrite_fails :: bool
  unlink_fails :: bool
  chmod_fails :: bool
  urandom :: "nat \<Rightarrow> bytes"
  strftime_now :: string
  default_mode :: nat

text \<open>
  The library functions: Fernet encryption and decryption under a key (\<open>None\<close>:
  \<open>InvalidToken\<close>), the SHA-256 hex digest, and base64 of a key.
\<close>

record crypto =
  fernet_encrypt :: "bytes \<Rightarrow> bytes \<Rightarrow> bytes"
  fernet_decrypt :: "bytes \<Rightarrow> bytes \<Rightarrow> bytes option"
  hexdigest :: "bytes \<Rightarrow> string"
  b64encode :: "bytes \<Rightarrow> string"
  b64decode :: "string \<Rightarrow> bytes"

definition path_name :: "path \<Rightarrow> string" where
  \<comment> \<open>\<open>Path.name\<close>: the final component, empty for the empty path.\<close>
  "path_name p = (if p = [] then [] else last p)"

definition read_file :: "io_env \<Rightarrow> filesystem \<Rightarrow> path \<Rightarrow> bytes option" where
  \<comment> \<open>\<open>open(p, 'rb').read()\<close>; \<open>None\<close> when it raises.\<close>
  "read_file env fsys p =
     (if read_fails env then None
      else case fsys p of None \<Rightarrow> None | Some f \<Rightarrow> Some (content f))"

definition write_file :: "io_env \<Rightarrow> path \<Rightarrow> bytes \<Rightarrow> filesystem \<Rightarrow> filesystem option" where
  \<comment> \<open>\<open>open(p, 'wb').write(data)\<close>: creates the file or replaces its bytes.\<close>
  "write_file env p data fsys =
     (if write_fails env then None
      else Some (fsys(p \<mapsto>
             \<lparr>content = data,
              st_mode = (case fsys p of None \<Rightarrow> default_mode env | Some f \<Rightarrow> st_mode f)\<rparr>)))"

definition unlink :: "io_env \<Rightarrow> path \<Rightarrow> filesystem \<Rightarrow> filesystem option" where
  "unlink env p fsys =
     (if unlink_fails env \<or> fsys p = None then None else Some (fsys(p := None)))"

definition chmod :: "io_env \<Rightarrow> path \<Rightarrow> nat \<Rightarrow> filesystem \<Rightarrow> filesystem option" where
  "chmod env p mode fsys =
     (if chmod_fails env then None
      else case fsys p of None \<Rightarrow> None | Some f \<Rightarrow> Some (fsys(p \<mapsto> f\<lparr>st_mode := mode\<rparr>)))"

definition load_metadata :: "io_env \<Rightarrow> 'e store \<Rightarrow> (string \<rightharpoonup> 'e)" where
  \<comment> \<open>\<open>_load_metadata\<close>: a failure is logged and the empty dict returned.\<close>
  "load_metadata env s = (if load_fails env then Map.empty else metadata s)"

definition save_metadata :: "io_env \<Rightarrow> (string \<rightharpoonup> 'e) \<Rightarrow> 'e store \<Rightarrow> 'e store option" where
  \<comment> \<open>\<open>_save_metadata\<close>: a failure is logged and raised again (\<open>None\<close>).\<close>
  "save_metadata env md s = (if save_fails env then None else Some (s\<lparr>metadata := md\<rparr>))"

section \<open>Quarantine manager (quarantine\_manager.py)\<close>

record QuarantineEntry =
  original_path :: path
  entry_timestamp :: string
  file_hash :: string
  threat_info :: "threat list"
  entry_size :: nat
  quarantine_path :: path
  is_encrypted :: bool










section \<open>Quarantine in the scan engine (engine.py)\<close>

record quarantine_meta =
  meta_original_path :: path
  meta_timestamp :: string
  meta_file_hash :: string
  meta_threat_info :: "threat list"
  original_permissions :: nat
  meta_encryption_key :: string

record ScanEngine =
  engine_quarantine_path :: path
  quarantine_key :: bytes

definition calculate_file_hash :: "io_env \<Rightarrow> crypto \<Rightarrow> filesystem \<Rightarrow> path \<Rightarrow> string option" where
  \<comment> \<open>\<open>calculate_file_hash\<close> catches the I/O error and returns \<open>None\<close> (the statistics
      counters it updates are left out).\<close>
  "calculate_file_hash env cx fsys p =
     (case read_file env fsys p of None \<Rightarrow> None | Some data \<Rightarrow> Some (hexdigest cx data))"

definition ScanEngine_secure_delete :: "io_env \<Rightarrow> path \<Rightarrow> filesystem \<Rightarrow> bool \<times> filesystem" where
  \<comment> \<open>The engine's \<open>_secure_delete\<close> has no test for a missing file: \<open>stat\<close> raises.\<close>
  "ScanEngine_secure_delete env p fsys =
     (case fsys p of
        None \<Rightarrow> (False, fsys)
      | Some f \<Rightarrow>
          if overwrite_fails env then (False, fsys)
          else let fsys' = fsys(p \<mapsto> f\<lparr>content := urandom env (length (content f))\<rparr>)
               in case unlink env p fsys' of
                    None \<Rightarrow> (False, fsys')
                  | Some fsys'' \<Rightarrow> (True, fsys''))"

definition ScanEngine_quarantine_name :: "io_env \<Rightarrow> string \<Rightarrow> path \<Rightarrow> string" where
  \<comment> \<open>\<open>f"{timestamp}_{file_hash[:8]}_{file_path.name}"\<close>.\<close>
  "ScanEngine_quarantine_name env h file_path =
     strftime_now env @ ''_'' @ take 8 h @ ''_'' @ path_name file_path"

definition ScanEngine_quarantine_file ::
  "io_env \<Rightarrow> crypto \<Rightarrow> ScanEngine \<Rightarrow> path \<Rightarrow> threat list \<Rightarrow> quarantine_meta store \<Rightarrow>
   bool \<times> quarantine_meta store" where
  \<comment> \<open>A \<open>None\<close> hash makes \<open>file_hash[:8]\<close> raise TypeError, caught like the rest.\<close>
  "ScanEngine_quarantine_file env cx eng file_path threats s =
     (case calculate_file_hash env cx (fs s) file_path of
        None \<Rightarrow> (False, s)
      | Some h \<Rightarrow>
     (let quarantine_name = ScanEngine_quarantine_name env h file_path;
          qfile = engine_quarantine_path eng @ [quarantine_name]
      in case read_file env (fs s) file_path of
        None \<Rightarrow> (False, s)
      | Some data \<Rightarrow>
     (case write_file env qfile (fernet_encrypt cx (quarantine_key eng) data) (fs s) of
        None \<Rightarrow> (False, s)
      | Some fsys1 \<Rightarrow>
     (let s1 = s\<lparr>fs := fsys1\<rparr>
      in case fsys1 file_path of
        None \<Rightarrow> (False, s1)
      | Some f \<Rightarrow>
     (let entry = \<lparr>meta_original_path = file_path, meta_timestamp = strftime_now env,
                   meta_file_hash = h, meta_threat_info = threats,
                   original_permissions = st_mode f,
                   meta_encryption_key = b64encode cx (quarantine_key eng)\<rparr>
      in case save_metadata env ((load_metadata env s1)(quarantine_name \<mapsto> entry)) s1 of
        None \<Rightarrow> (False, s1)
      | Some s2 \<Rightarrow>
          (fst (ScanEngine_secure_delete env file_path (fs s2)),
           s2\<lparr>fs := snd (ScanEngine_secure_delete env file_path (fs s2))\<rparr>))))))"

definition ScanEngine_restore_file ::
  "io_env \<Rightarrow> crypto \<Rightarrow> ScanEngine \<Rightarrow> string \<Rightarrow> quarantine_meta store \<Rightarrow>
   bool \<times> quarantine_meta store" where
  "ScanEngine_restore_file env cx eng quarantine_name s =
     (case load_metadata env s quarantine_name of
        None \<Rightarrow> (False, s)
      | Some file_meta \<Rightarrow>
     (let qfile = engine_quarantine_path eng @ [quarantine_name];
          orig = meta_original_path file_meta
      in case read_file env (fs s) qfile of
        None \<Rightarrow> (False, s)
      | Some encrypted \<Rightarrow>
     (case fernet_decrypt cx (b64decode cx (meta_encryption_key file_meta)) encrypted of
        None \<Rightarrow> (False, s)
      | Some decrypted \<Rightarrow>
     (case write_file env orig decrypted (fs s) of
        None \<Rightarrow> (False, s)
      | Some fsys1 \<Rightarrow>
     (case chmod env orig (original_permissions file_meta) fsys1 of
        None \<Rightarrow> (False, s\<lparr>fs := fsys1\<rparr>)
      | Some fsys2 \<Rightarrow>
     (case unlink env qfile fsys2 of
        None \<Rightarrow> (False, s\<lparr>fs := fsys2\<rparr>)
      | Some fsys3 \<Rightarrow>
     (case save_metadata env ((load_metadata env s)(quarantine_name := None))
             (s\<lparr>fs := fsys3\<rparr>) of
        None \<Rightarrow> (False, s\<lparr>fs := fsys3\<rparr>)
      | Some s4 \<Rightarrow> (True, s4))))))))"

definition no_io_failure :: "io_env \<Rightarrow> bool" where
  "no_io_failure env =
     (\<not> read_fails env \<and> \<not> write_fails env \<and> \<not> load_fails env \<and> \<not> save_fails env \<and>
      \<not> overwrite_fails env \<and> \<not> unlink_fails env \<and> \<not> chmod_fails env)"

section \<open>Concrete inputs used by the witnesses\<close>

definition slow_batch :: ScanBatch where
  \<comment> \<open>One file scanned in one second: far below the target of 1000 files per second.\<close>
  "slow_batch = \<lparr>files = [[''a'']], total_size = 10, start_time = 100, end_time = 101\<rparr>"

definition low_disk_sample :: telemetry where
  \<comment> \<open>512 MiB free on the disk, every other metric unremarkable, no temperature sensor.\<close>
  "low_disk_sample =
     \<lparr>disk_free = 512 * 1024 * 1024, disk_percent = 99, memory_percent = 40,
      memory_available = 8 * 1024 * 1024 * 1024, cpu_percent = 10,
      sensors_temperatures = None, disk_io_counters = []\<rparr>"

definition pressured_health :: HealthStatus where
  "pressured_health =
     \<lparr>timestamp = 390, disk_space = 50 * 1024 * 1024 * 1024, disk_usage = 60,
      memory_usage = 95, hs_memory_available = 1024, cpu_usage = 30, cpu_temp = None,
      io_counters = [], critical_services = [], status = ''warning'',
      issues = [''High memory usage: 95.0%'']\<rparr>"

definition relaxed_health :: HealthStatus where
  "relaxed_health =
     \<lparr>timestamp = 450, disk_space = 50 * 1024 * 1024 * 1024, disk_usage = 60,
      memory_usage = 20, hs_memory_available = 1024, cpu_usage = 30, cpu_temp = None,
      io_counters = [], critical_services = [], status = ''healthy'', issues = []\<rparr>"

definition toy_sha256 :: "bytes \<Rightarrow> string" where
  \<comment> \<open>A stand-in digest for the witnesses: the empty content has the digest that
      \<open>virus_signatures['hashes']\<close> lists (the SHA-256 of the empty string).\<close>
  "toy_sha256 c =
     (if c = [] then ''e3b0c44298fc1c149afbf4c8996fb92427ae41e4649b934ca495991b7852b855''
      else ''0000000000000000000000000000000000000000000000000000000000000000'')"

definition example_env :: scan_env where
  "example_env =
     \<lparr>hashes = {''e3b0c44298fc1c149afbf4c8996fb92427ae41e4649b934ca495991b7852b855''},
      patterns = [],
      suspicious_extensions =
        {''.exe'', ''.dll'', ''.scr'', ''.bat'', ''.cmd'', ''.vbs'', ''.js'',
         ''.jar'', ''.ps1'', ''.msi'', ''.com'', ''.pif'', ''.hta''},
      sha256_hexdigest = toy_sha256, has_magic = False, magic_from_file = None,
      yara_compiler = None\<rparr>"

definition empty_text_file :: file_info where
  "empty_text_file =
     \<lparr>file_exists = True, is_file = True, st_size = 0, suffix = ''.txt'',
      suffix_lower = ''.txt'', hash_read = Inr [], analysis_read = Inr []\<rparr>"

definition oversized_file :: file_info where
  "oversized_file =
     \<lparr>file_exists = True, is_file = True, st_size = 100 * 1024 * 1024 + 1, suffix = ''.iso'',
      suffix_lower = ''.iso'', hash_read = Inr [], analysis_read = Inr []\<rparr>"

definition cpu_rule_example :: ThrottleRule where
  "cpu_rule_example =
     \<lparr>resource = ''cpu'', threshold = 80, reduction = 0.5, cooldown = 30, priority = 8\<rparr>"

definition memory_rule_example :: ThrottleRule where
  "memory_rule_example =
     \<lparr>resource = ''memory'', threshold = 85, reduction = 0.4, cooldown = 60, priority = 9\<rparr>"

definition idle_example :: ResourceThrottler where
  \<comment> \<open>The throttler as \<open>__init__\<close> leaves it, with callback 1 registered for \<open>cpu\<close>
      and callback 2 for \<open>memory\<close>.\<close>
  "idle_example = register_callback ''memory'' 2 (register_callback ''cpu'' 1 ResourceThrottler_init)"

definition throttled_example :: ResourceThrottler where
  \<comment> \<open>That throttler after \<open>apply_throttle\<close> of the cpu and memory rules at time 1000.\<close>
  "throttled_example =
     idle_example\<lparr>is_throttled := True, throttle_start := Some 1000,
                  current_rules := [memory_rule_example, cpu_rule_example]\<rparr>"

definition busy_metrics :: metrics where
  \<comment> \<open>CPU at 95 percent, above the threshold of 80; memory and disk I/O below theirs.\<close>
  "busy_metrics = \<lparr>m_cpu_percent = 95, m_memory_percent = 50, m_disk_io = Some (0, 0)\<rparr>"

definition toy_crypto :: crypto where
  \<comment> \<open>A stand-in for the library in the witnesses: "encryption" prefixes the key,
      decryption checks and strips it.\<close>
  "toy_crypto =
     \<lparr>fernet_encrypt = (\<lambda>k c. k @ c),
      fernet_decrypt = (\<lambda>k b. if take (length k) b = k then Some (drop (length k) b) else None),
      hexdigest = toy_sha256,
      b64encode = map char_of,
      b64decode = map of_char\<rparr>"

definition quiet_env :: io_env where
  \<comment> \<open>No I/O step fails.\<close>
  "quiet_env =
     \<lparr>read_fails = False, write_fails = False, load_fails = False, save_fails = False,
      overwrite_fails = False, unlink_fails = False, chmod_fails = False,
      urandom = (\<lambda>n. replicate n 0), strftime_now = ''20240101_120000'',
      default_mode = 420\<rparr>"

definition evil_file :: regular_file where
  "evil_file = \<lparr>content = [77, 90, 144], st_mode = 493\<rparr>"

definition example_engine :: ScanEngine where
  "example_engine = \<lparr>engine_quarantine_path = [''quarantine''], quarantine_key = [1, 2, 3]\<rparr>"

definition engine_store_example :: "quarantine_meta store" where
  "engine_store_example = \<lparr>fs = [[''home'', ''evil.exe''] \<mapsto> evil_file], metadata = Map.empty\<rparr>"




section \<open>Theorems: scan optimizer\<close>

lemma py_int_scale_le:
  assumes "0 \<le> n" and "c \<le> 1"
  shows "py_int (of_int n * c) \<le> n"
proof -
  have "of_int n * c \<le> (of_int n :: real)"
    using assms by (simp add: mult_left_le)
  then have "\<lfloor>of_int n * c\<rfloor> \<le> n" and "\<lceil>of_int n * c\<rceil> \<le> n"
    by (simp_all add: floor_le_iff ceiling_le_iff)
  then show ?thesis by (simp add: py_int_def)
qed

lemma py_int_scale_ge:
  assumes "0 \<le> n" and "1 \<le> c"
  shows "n \<le> py_int (of_int n * c)"
proof -
  have "(of_int n :: real) \<le> of_int n * c"
    using assms by (simp add: mult_le_cancel_left1)
  moreover have "0 \<le> of_int n * c" using assms by simp
  ultimately show ?thesis by (simp add: py_int_def le_floor_iff)
qed

lemma adjust_batch_size_bounds:
  "batch_size_in_bounds opt \<Longrightarrow> batch_size_in_bounds (adjust_batch_size b opt)"
  using py_int_scale_le [of "batch_size opt" "0.8"] py_int_scale_ge [of "batch_size opt" "1.2"]
  by (auto simp: batch_size_in_bounds_def adjust_batch_size_def)

lemma handle_memory_throttle_bounds:
  "0 \<le> r \<Longrightarrow> batch_size_in_bounds opt \<Longrightarrow> batch_size_in_bounds (handle_memory_throttle r opt)"
  using py_int_scale_le [of "batch_size opt" "1 - r"]
  by (auto simp: batch_size_in_bounds_def handle_memory_throttle_def)

lemma run_batch_ops_bounds:
  "list_all (\<lambda>x. 0 \<le> reduction_of x) ops \<Longrightarrow> batch_size_in_bounds opt \<Longrightarrow>
   batch_size_in_bounds (run_batch_ops ops opt)"
proof (induction ops arbitrary: opt)
  case Nil
  then show ?case by simp
next
  case (Cons x xs)
  have "batch_size_in_bounds (apply_batch_op x opt)"
  proof (cases x)
    case (AdjustBatchSize b)
    then show ?thesis using Cons.prems(2) by (simp add: adjust_batch_size_bounds)
  next
    case (MemoryThrottle r)
    then show ?thesis using Cons.prems by (simp add: handle_memory_throttle_bounds)
  qed
  then show ?case using Cons.IH Cons.prems(1) by simp
qed

text \<open>
  Claim C10. Starting from the initial batch size of 1000, every sequence of
  \<open>adjust_batch_size\<close> calls and memory-throttle callbacks keeps
  \<open>min_batch_size = 100 \<le> batch_size \<le> max_batch_size = 5000\<close>. A memory-throttle
  callback is passed a rule's reduction fraction, which is not negative. The proof uses
  of the scaling only that a factor of at most 1 does not raise and a factor of at least
  1 does not lower a non-negative size.
\<close>

theorem batch_size_invariant:
  assumes "list_all (\<lambda>x. 0 \<le> reduction_of x) ops"
  shows "100 \<le> batch_size (run_batch_ops ops (ScanOptimizer_init ts)) \<and>
         batch_size (run_batch_ops ops (ScanOptimizer_init ts)) \<le> 5000 \<and>
         min_batch_size (run_batch_ops ops (ScanOptimizer_init ts)) = 100 \<and>
         max_batch_size (run_batch_ops ops (ScanOptimizer_init ts)) = 5000"
proof -
  have "batch_size_in_bounds (ScanOptimizer_init ts)"
    by (simp add: batch_size_in_bounds_def ScanOptimizer_init_def)
  then have "batch_size_in_bounds (run_batch_ops ops (ScanOptimizer_init ts))"
    using assms by (rule run_batch_ops_bounds [rotated])
  then show ?thesis by (simp add: batch_size_in_bounds_def)
qed

lemma run_batch_ops_example:
  "batch_size (run_batch_ops [MemoryThrottle 0.4, AdjustBatchSize slow_batch]
     (ScanOptimizer_init 1000)) = 480"
  by (simp add: ScanOptimizer_init_def handle_memory_throttle_def adjust_batch_size_def
      py_int_def files_per_second_def duration_def slow_batch_def)

theorem batch_size_invariant_witness:
  "list_all (\<lambda>x. 0 \<le> reduction_of x) [MemoryThrottle 0.4, AdjustBatchSize slow_batch] \<and>
   100 \<le> batch_size (run_batch_ops [MemoryThrottle 0.4, AdjustBatchSize slow_batch]
            (ScanOptimizer_init 1000)) \<and>
   batch_size (run_batch_ops [MemoryThrottle 0.4, AdjustBatchSize slow_batch]
     (ScanOptimizer_init 1000)) \<le> 5000"
  using batch_size_invariant [of "[MemoryThrottle 0.4, AdjustBatchSize slow_batch]" 1000]
  by simp

text \<open>
  Outside the domain of reduction fractions the handler has no upper clamp: a negative
  reduction grows the batch size past \<open>max_batch_size\<close>.
\<close>

lemma handle_memory_throttle_negative_reduction:
  "batch_size (run_batch_ops [MemoryThrottle (- 9)] (ScanOptimizer_init 1000)) = 10000"
  by (simp add: ScanOptimizer_init_def handle_memory_throttle_def py_int_def)

section \<open>Theorems: system health monitor\<close>

lemma check_critical_services_running:
  "filter (\<lambda>(service, running). \<not> running) (check_critical_services services) = []"
  by (induction services) (simp_all add: check_critical_services_def)

lemma health_issues_not_critical:
  "\<not> list_ex (\<lambda>i. startswith i ''Critical'') (health_issues fmt th services t)"
  by (simp add: health_issues_def check_critical_services_running startswith_def
      split: option.splits)

text \<open>
  No issue that \<open>_check_system_health\<close> can append starts with \<open>Critical\<close> (the one
  message that does belongs to a service that is not running, and every service is
  recorded as running), so the status it computes is never \<open>critical\<close>.
\<close>

lemma check_system_health_never_critical:
  "status (check_system_health fmt th services now t) \<noteq> ''critical''"
  using health_issues_not_critical [of fmt th services t]
  by (simp add: check_system_health_def overall_status_def)

text \<open>
  Claim C3 says that a sample with less than 1 GiB of free disk space yields a
  critical-tagged issue and the overall status \<open>critical\<close>. The code at such a sample
  (512 MiB free, default thresholds): the only issue is \<open>Low disk space: ...GB free\<close>,
  no issue starts with \<open>Critical\<close>, and the status is \<open>warning\<close>.
\<close>

theorem low_disk_reports_warning:
  "disk_free low_disk_sample < 1024 * 1024 * 1024 \<and>
   issues (check_system_health fmt default_thresholds monitored_services now low_disk_sample) =
     [''Low disk space: '' @ fmt (1 / 2) @ ''GB free''] \<and>
   \<not> list_ex (\<lambda>i. startswith i ''Critical'')
       (issues (check_system_health fmt default_thresholds monitored_services now low_disk_sample)) \<and>
   status (check_system_health fmt default_thresholds monitored_services now low_disk_sample) =
     ''warning''"
  by (simp add: check_system_health_def health_issues_def overall_status_def low_disk_sample_def
      default_thresholds_def monitored_services_def check_critical_services_def
      read_cpu_temp_def startswith_def)

section \<open>Theorems: scan intensity manager\<close>

lemma adjust_intensity_None:
  "adjust_intensity t t' h m = (None, m') \<Longrightarrow> m' = m"
  by (auto simp: adjust_intensity_def Let_def split: if_splits option.splits)

lemma adjust_intensity_Some:
  "adjust_intensity t t' h m = (Some p, m') \<Longrightarrow>
   current_profile m' \<noteq> current_profile m \<and> last_adjustment m' = t' \<and>
   adjustment_cooldown m' = adjustment_cooldown m \<and>
   profiles m (current_profile m') = Some p"
  by (auto simp: adjust_intensity_def Let_def split: if_splits option.splits)

lemma adjust_intensity_in_cooldown:
  "t - last_adjustment m < adjustment_cooldown m \<Longrightarrow> adjust_intensity t t' h m = (None, m)"
  by (simp add: adjust_intensity_def)

lemma adjust_intensity_same_profile:
  "get_current_health h = Some health \<Longrightarrow> select_profile health = current_profile m \<Longrightarrow>
   adjust_intensity t t' h m = (None, m)"
  by (simp add: adjust_intensity_def)

text \<open>
  Claim C8. Let a call of \<open>adjust_intensity\<close> on a manager with the five-minute
  cooldown return \<open>r1\<close> and leave the manager \<open>m1\<close>. If it returned no profile, the
  manager is unchanged (so the timestamp is written only by a call that returns a
  profile). If it returned a profile, the current profile has changed, the timestamp is
  the clock reading of that call, and any call less than 300 seconds after it returns no
  profile and leaves the manager, hence the current profile, unchanged. A call whose
  selection is the current profile returns no profile and changes nothing.
\<close>

theorem adjust_intensity_cooldown:
  assumes "adjustment_cooldown m = 300"
    and "adjust_intensity t1 t1' h1 m = (r1, m1)"
  shows "(r1 = None \<longrightarrow> m1 = m) \<and>
         (\<forall>p. r1 = Some p \<longrightarrow>
            current_profile m1 \<noteq> current_profile m \<and> last_adjustment m1 = t1' \<and>
            profiles m (current_profile m1) = Some p \<and>
            (t2 - t1' < 300 \<longrightarrow> adjust_intensity t2 t2' h2 m1 = (None, m1))) \<and>
         (\<forall>health. get_current_health h1 = Some health \<and>
                   select_profile health = current_profile m \<longrightarrow> r1 = None \<and> m1 = m)"
proof (intro conjI allI impI)
  assume "r1 = None"
  then show "m1 = m" using assms(2) by (simp add: adjust_intensity_None)
next
  fix p assume p: "r1 = Some p"
  then have s: "current_profile m1 \<noteq> current_profile m \<and> last_adjustment m1 = t1' \<and>
      adjustment_cooldown m1 = adjustment_cooldown m \<and> profiles m (current_profile m1) = Some p"
    using assms(2) adjust_intensity_Some by blast
  from s show "current_profile m1 \<noteq> current_profile m" by simp
  from s show "last_adjustment m1 = t1'" by simp
  from s show "profiles m (current_profile m1) = Some p" by simp
  assume "t2 - t1' < 300"
  then have "t2 - last_adjustment m1 < adjustment_cooldown m1"
    using s assms(1) by simp
  then show "adjust_intensity t2 t2' h2 m1 = (None, m1)"
    by (rule adjust_intensity_in_cooldown)
next
  fix health
  assume h: "get_current_health h1 = Some health \<and> select_profile health = current_profile m"
  then have "adjust_intensity t1 t1' h1 m = (None, m)"
    by (simp add: adjust_intensity_same_profile)
  then show "r1 = None" and "m1 = m" using assms(2) by simp_all
qed

lemma adjust_intensity_first_call:
  "adjust_intensity 400 401 [pressured_health] (ScanIntensityManager_init 0) =
     (default_profiles ''minimal'',
      (ScanIntensityManager_init 0)\<lparr>current_profile := ''minimal'', last_adjustment := 401\<rparr>)"
  by (simp add: adjust_intensity_def ScanIntensityManager_init_def get_current_health_def
      select_profile_def pressured_health_def default_profiles_def Let_def)

text \<open>
  The witness: a manager created at time 0 is adjusted at time 400 under memory pressure
  (to \<open>minimal\<close>); a second call at time 500, when the latest health entry would select
  another profile, returns no profile and changes nothing.
\<close>

theorem adjust_intensity_cooldown_witness:
  "adjustment_cooldown (ScanIntensityManager_init 0) = 300 \<and>
   adjust_intensity 400 401 [pressured_health] (ScanIntensityManager_init 0) =
     (default_profiles ''minimal'',
      (ScanIntensityManager_init 0)\<lparr>current_profile := ''minimal'', last_adjustment := 401\<rparr>) \<and>
   default_profiles ''minimal'' \<noteq> None \<and> (500::real) - 401 < 300 \<and>
   adjust_intensity 500 501 [pressured_health, relaxed_health]
     ((ScanIntensityManager_init 0)\<lparr>current_profile := ''minimal'', last_adjustment := 401\<rparr>) =
     (None, (ScanIntensityManager_init 0)\<lparr>current_profile := ''minimal'', last_adjustment := 401\<rparr>)"
proof -
  have c: "adjustment_cooldown (ScanIntensityManager_init 0) = 300"
    by (simp add: ScanIntensityManager_init_def)
  have d: "default_profiles ''minimal'' \<noteq> None"
    by (simp add: default_profiles_def)
  then obtain p where p: "default_profiles ''minimal'' = Some p" by blast
  show ?thesis
    using adjust_intensity_cooldown [OF c adjust_intensity_first_call, of 500 501
        "[pressured_health, relaxed_health]"]
      c d adjust_intensity_first_call p by simp
qed

section \<open>Theorems: detection engine\<close>

lemma analyze_content_keeps:
  "set threats \<subseteq> set (fst (analyze_content env f threats))"
  by (auto simp: analyze_content_def Let_def split: option.splits sum.splits)

text \<open>
  Claim C9. For every existing regular file strictly larger than 100 MiB, \<open>scan_file\<close>
  returns the status \<open>skipped\<close> and makes no content read: its trace of reads,
  probes and matches (hash computation, pattern search, YARA match) is empty.
\<close>

theorem scan_file_oversized_skipped:
  assumes "file_exists f" and "is_file f" and "st_size f > 100 * 1024 * 1024"
  shows "scan_file env file_path f = (ScanSkipped file_path ''File too large'', []) \<and>
         result_status (fst (scan_file env file_path f)) = ''skipped'' \<and>
         snd (scan_file env file_path f) = []"
  using assms by (simp add: scan_file_def)

text \<open>
  Claim C2. For every existing regular file of at most 100 MiB whose content (as read by
  the hash computation) has a SHA-256 digest in the known-bad set, \<open>scan_file\<close> returns
  the status \<open>infected\<close> with the \<open>known_malware\<close> finding of severity 10. Neither the
  extension nor anything the content analysis does (file-type probe, second read,
  patterns, YARA, or an exception in any of them) enters the hypotheses.
\<close>

theorem scan_file_known_hash_infected:
  assumes "file_exists f" and "is_file f" and "st_size f \<le> 100 * 1024 * 1024"
    and "hash_read f = Inr c" and "sha256_hexdigest env c \<in> hashes env"
  shows "result_status (fst (scan_file env file_path f)) = ''infected'' \<and>
         known_malware_threat \<in> set (result_threats (fst (scan_file env file_path f))) \<and>
         threat_type known_malware_threat = ''known_malware'' \<and>
         severity known_malware_threat = 10"
proof -
  let ?ts = "(if suffix_lower f \<in> suspicious_extensions env
              then [suspicious_extension_threat (suffix f)] else []) @ [known_malware_threat]"
  have k: "known_malware_threat \<in> set (fst (analyze_content env f ?ts))"
    using analyze_content_keeps [of ?ts env f] by auto
  then have ne: "fst (analyze_content env f ?ts) \<noteq> []" by auto
  show ?thesis
    using assms k ne by (simp add: scan_file_def Let_def known_malware_threat_def)
qed

theorem scan_file_oversized_skipped_witness:
  "file_exists oversized_file \<and> is_file oversized_file \<and>
   st_size oversized_file > 100 * 1024 * 1024 \<and>
   scan_file example_env ''big.iso'' oversized_file = (ScanSkipped ''big.iso'' ''File too large'', [])"
  using scan_file_oversized_skipped [of oversized_file example_env "''big.iso''"]
  by (simp add: oversized_file_def)

theorem scan_file_known_hash_infected_witness:
  "file_exists empty_text_file \<and> is_file empty_text_file \<and>
   st_size empty_text_file \<le> 100 * 1024 * 1024 \<and> hash_read empty_text_file = Inr [] \<and>
   sha256_hexdigest example_env [] \<in> hashes example_env \<and>
   result_status (fst (scan_file example_env ''notes.txt'' empty_text_file)) = ''infected'' \<and>
   known_malware_threat \<in> set (result_threats (fst (scan_file example_env ''notes.txt'' empty_text_file)))"
  using scan_file_known_hash_infected [of empty_text_file "[]" example_env "''notes.txt''"]
  by (simp add: empty_text_file_def example_env_def toy_sha256_def)

lemma scan_file_example:
  "scan_file example_env ''notes.txt'' empty_text_file =
     (Scanned ''notes.txt'' ''infected'' [known_malware_threat]
        ''e3b0c44298fc1c149afbf4c8996fb92427ae41e4649b934ca495991b7852b855'' ''txt'',
      [ReadForHash, ReadForAnalysis])"
  by (simp add: scan_file_def analyze_content_def empty_text_file_def example_env_def
      toy_sha256_def Let_def)

section \<open>Theorems: resource throttler\<close>

lemma idle_example_fields:
  "lock_held idle_example = False" "is_throttled idle_example = False"
  "throttle_start idle_example = None" "current_rules idle_example = []"
  "rules idle_example = default_rules"
  "throttle_callbacks idle_example ''cpu'' = Some [1]"
  "throttle_callbacks idle_example ''memory'' = Some [2]"
  "throttle_callbacks idle_example ''disk_io'' = Some []"
  by (simp_all add: idle_example_def register_callback_def ResourceThrottler_init_def)

lemma cooldown_pending_iff:
  "cooldown_pending clock start i rs \<longleftrightarrow>
   (\<exists>j<length rs. clock (i + j) - start < of_int (cooldown (rs ! j)))"
proof (induction rs arbitrary: i)
  case Nil
  then show ?case by simp
next
  case (Cons r rs)
  show ?case
  proof (cases "clock i - start < of_int (cooldown r)")
    case True
    then have "clock (i + 0) - start < of_int (cooldown ((r # rs) ! 0))" by simp
    then show ?thesis using True by (metis cooldown_pending.simps(2) length_greater_0_conv list.distinct(1))
  next
    case False
    have "(\<exists>j<length (r # rs). clock (i + j) - start < of_int (cooldown ((r # rs) ! j))) \<longleftrightarrow>
          (\<exists>j<length rs. clock (Suc i + j) - start < of_int (cooldown (rs ! j)))"
    proof
      assume "\<exists>j<length (r # rs). clock (i + j) - start < of_int (cooldown ((r # rs) ! j))"
      then obtain j where j: "j < length (r # rs)"
        "clock (i + j) - start < of_int (cooldown ((r # rs) ! j))" by blast
      with False obtain k where "j = Suc k" by (cases j) auto
      with j show "\<exists>j<length rs. clock (Suc i + j) - start < of_int (cooldown (rs ! j))"
        by auto
    next
      assume "\<exists>j<length rs. clock (Suc i + j) - start < of_int (cooldown (rs ! j))"
      then obtain k where "k < length rs" "clock (Suc i + k) - start < of_int (cooldown (rs ! k))"
        by blast
      then have "Suc k < length (r # rs) \<and>
                 clock (i + Suc k) - start < of_int (cooldown ((r # rs) ! Suc k))" by simp
      then show "\<exists>j<length (r # rs). clock (i + j) - start < of_int (cooldown ((r # rs) ! j))"
        by blast
    qed
    then show ?thesis using False Cons.IH [of "Suc i"] by simp
  qed
qed

lemma max_cooldown_attained:
  assumes "rs \<noteq> []"
  shows "\<exists>j<length rs. cooldown (rs ! j) = Max (cooldown ` set rs)"
proof -
  have "Max (cooldown ` set rs) \<in> cooldown ` set rs"
    using assms by (intro Max_in) auto
  then obtain r where "r \<in> set rs" "cooldown r = Max (cooldown ` set rs)" by auto
  then show ?thesis by (metis in_set_conv_nth)
qed

text \<open>
  Claim C6. When \<open>check_resources\<close> is called (the lock being free, as it is between
  calls) while the throttle is active with at least one active rule, and every clock
  reading of the call is less than the largest cooldown of the active rules after the
  activation, it returns \<open>True\<close>, leaves the throttler as it was and samples no
  metric, whatever the current metrics are.
\<close>

theorem check_resources_in_cooldown:
  assumes "\<not> lock_held s" and "is_throttled s" and "throttle_start s = Some start"
    and "current_rules s \<noteq> []"
    and "\<forall>i<length (current_rules s).
           clock i - start < of_int (Max (cooldown ` set (current_rules s)))"
  shows "check_resources clock raises m s = Returned True s []"
proof -
  obtain j where j: "j < length (current_rules s)"
    "cooldown (current_rules s ! j) = Max (cooldown ` set (current_rules s))"
    using max_cooldown_attained [OF assms(4)] by blast
  then have "clock (0 + j) - start < of_int (cooldown (current_rules s ! j))"
    using assms(5) by simp
  then have "cooldown_pending clock start 0 (current_rules s)"
    using j(1) cooldown_pending_iff by blast
  moreover have "s\<lparr>lock_held := True\<rparr>\<lparr>lock_held := False\<rparr> = s"
    using assms(1) by simp
  ultimately show ?thesis
    using assms(1,2,3) by (simp add: check_resources_def with_lock_def)
qed

theorem check_resources_in_cooldown_witness:
  "\<not> lock_held throttled_example \<and> is_throttled throttled_example \<and>
   throttle_start throttled_example = Some 1000 \<and> current_rules throttled_example \<noteq> [] \<and>
   (1045::real) - 1000 < real_of_int (Max (cooldown ` set (current_rules throttled_example))) \<and>
   check_resources (\<lambda>i. 1045) (\<lambda>cb. False) busy_metrics throttled_example =
     Returned True throttled_example []"
proof -
  have a: "\<not> lock_held throttled_example" "is_throttled throttled_example"
    "throttle_start throttled_example = Some 1000" "current_rules throttled_example \<noteq> []"
    by (simp_all add: throttled_example_def idle_example_fields)
  have b: "\<forall>i<length (current_rules throttled_example).
      (\<lambda>i. 1045) i - 1000 < real_of_int (Max (cooldown ` set (current_rules throttled_example)))"
    by (simp add: throttled_example_def idle_example_fields memory_rule_example_def cpu_rule_example_def)
  have c: "(1045::real) - 1000 < real_of_int (Max (cooldown ` set (current_rules throttled_example)))"
    by (simp add: throttled_example_def idle_example_fields memory_rule_example_def cpu_rule_example_def)
  show ?thesis
    using check_resources_in_cooldown [OF a b, of "\<lambda>cb. False" busy_metrics] a c by blast
qed





lemma call_callbacks_invokes_all:
  "filter (\<lambda>e. \<forall>cb. e \<noteq> CallbackFailed cb) (call_callbacks raises res red cbs) =
   map (\<lambda>cb. Invoked res cb red) cbs"
  by (induction cbs) auto

text \<open>
  Called on its own, with the lock free, \<open>apply_throttle\<close> does what it is written
  for: it sets the flag, the timestamp and the rule list sorted by descending priority
  and runs the callbacks of each rule in that order.
\<close>

lemma apply_throttle_lock_free:
  assumes "\<not> lock_held s"
  shows "outcome_state (apply_throttle now raises triggered s) =
           s\<lparr>is_throttled := True, throttle_start := Some now,
              current_rules := sort_by_priority triggered\<rparr> \<and>
         outcome_events (apply_throttle now raises triggered s) =
           fst (apply_rules raises (throttle_callbacks s) (sort_by_priority triggered))"
  using assms by (simp add: apply_throttle_def with_lock_def Let_def)

lemma apply_throttle_example:
  "apply_throttle 1000 (\<lambda>cb. cb = 2) [cpu_rule_example, memory_rule_example] idle_example =
     Returned () throttled_example
       [Invoked ''memory'' 2 0.4, CallbackFailed 2, Invoked ''cpu'' 1 0.5]"
  by (simp add: apply_throttle_def with_lock_def Let_def sort_by_priority_def
      throttled_example_def idle_example_fields cpu_rule_example_def memory_rule_example_def)

lemma apply_throttle_lock_held:
  "lock_held s \<Longrightarrow> apply_throttle now raises triggered s = Blocked s []"
  by (simp add: apply_throttle_def with_lock_def)

lemma evaluate_triggers_lock_held:
  assumes "lock_held s"
  shows "returned_value (evaluate_triggers now raises m s) \<noteq> Some True \<and>
         outcome_state (evaluate_triggers now raises m s) = s"
  using assms
  by (auto simp: evaluate_triggers_def apply_throttle_lock_held Let_def
      split: option.splits prod.splits)

text \<open>
  In general: \<open>check_resources\<close> returns \<open>True\<close> only from the cooldown branch, that is,
  only when the throttle was already active; it never activates the throttle itself.
\<close>

lemma check_resources_True_only_in_cooldown:
  assumes "returned_value (check_resources clock raises m s) = Some True"
  shows "is_throttled s \<and> throttle_start s \<noteq> None"
proof (rule ccontr)
  assume n: "\<not> (is_throttled s \<and> throttle_start s \<noteq> None)"
  have l: "lock_held (s\<lparr>lock_held := True\<rparr>)" by simp
  have "returned_value (evaluate_triggers (clock 0) raises m (s\<lparr>lock_held := True\<rparr>)) \<noteq> Some True"
    using evaluate_triggers_lock_held [OF l] by blast
  then have "returned_value (check_resources clock raises m s) \<noteq> Some True"
    using n
    by (cases "evaluate_triggers (clock 0) raises m (s\<lparr>lock_held := True\<rparr>)")
      (auto simp: check_resources_def with_lock_def split: option.splits)
  then show False using assms by simp
qed

text \<open>
  Claim C7 says that a non-throttled call that finds a rule exceeded activates the
  throttle, runs the callbacks and returns true. The code at such a call (the default
  throttler with callbacks registered, CPU at 95 percent): \<open>check_resources\<close> holds
  \<open>throttle_lock\<close> when it calls \<open>apply_throttle\<close>, which acquires the same lock first,
  so the call blocks after the three samples: the throttle is not activated, no
  callback is invoked and nothing is returned.
\<close>

theorem check_resources_trigger_blocks:
  "check_resources (\<lambda>i. 1000) (\<lambda>cb. False) busy_metrics idle_example =
     Blocked (idle_example\<lparr>lock_held := True\<rparr>) [SampledCpu, SampledMemory, SampledDiskIO] \<and>
   \<not> is_throttled (outcome_state
       (check_resources (\<lambda>i. 1000) (\<lambda>cb. False) busy_metrics idle_example)) \<and>
   returned_value (check_resources (\<lambda>i. 1000) (\<lambda>cb. False) busy_metrics idle_example) = None"
  by (simp add: check_resources_def with_lock_def evaluate_triggers_def apply_throttle_def
      idle_example_fields default_rules_def busy_metrics_def sample_events_def Let_def)

section \<open>Theorems: quarantine\<close>

lemma not_own_quarantine_path:
  assumes "pre \<noteq> []"
  shows "p \<noteq> d @ [pre @ path_name p]"
proof
  assume eq: "p = d @ [pre @ path_name p]"
  then have "p \<noteq> []" by auto
  then have "path_name p = last p" by (simp add: path_name_def)
  moreover have "last p = pre @ path_name p" using eq by (metis last_snoc)
  ultimately have "length (last p) = length pre + length (last p)" by (metis length_append)
  then show False using assms by simp
qed

lemma ScanEngine_quarantine_path_fresh:
  "file_path \<noteq> d @ [ScanEngine_quarantine_name env h file_path]"
  using not_own_quarantine_path [of "strftime_now env @ ''_'' @ take 8 h @ ''_''" file_path d]
  by (simp add: ScanEngine_quarantine_name_def)

lemma ScanEngine_quarantine_file_True:
  assumes "fs s file_path = Some f"
    and "fst (ScanEngine_quarantine_file env cx eng file_path threats s)"
  shows "snd (ScanEngine_quarantine_file env cx eng file_path threats s) =
           s\<lparr>fs := ((fs s)(engine_quarantine_path eng @
                    [ScanEngine_quarantine_name env (hexdigest cx (content f)) file_path] \<mapsto>
                    \<lparr>content = fernet_encrypt cx (quarantine_key eng) (content f),
                     st_mode = (case fs s (engine_quarantine_path eng @
                         [ScanEngine_quarantine_name env (hexdigest cx (content f)) file_path]) of
                       None \<Rightarrow> default_mode env | Some g \<Rightarrow> st_mode g)\<rparr>))(file_path := None),
              metadata := (load_metadata env s)
                (ScanEngine_quarantine_name env (hexdigest cx (content f)) file_path \<mapsto>
                   \<lparr>meta_original_path = file_path, meta_timestamp = strftime_now env,
                    meta_file_hash = hexdigest cx (content f), meta_threat_info = threats,
                    original_permissions = st_mode f,
                    meta_encryption_key = b64encode cx (quarantine_key eng)\<rparr>)\<rparr>"
  using assms ScanEngine_quarantine_path_fresh [of file_path "engine_quarantine_path eng" env
      "hexdigest cx (content f)"]
  by (auto simp: ScanEngine_quarantine_file_def calculate_file_hash_def read_file_def
      write_file_def save_metadata_def load_metadata_def ScanEngine_secure_delete_def unlink_def
      Let_def split: if_splits option.splits)

lemma ScanEngine_quarantine_file_succeeds:
  assumes "fs s file_path = Some f" and "no_io_failure env"
  shows "fst (ScanEngine_quarantine_file env cx eng file_path threats s)"
  using assms ScanEngine_quarantine_path_fresh [of file_path "engine_quarantine_path eng" env
      "hexdigest cx (content f)"]
  by (auto simp: ScanEngine_quarantine_file_def calculate_file_hash_def read_file_def
      write_file_def save_metadata_def load_metadata_def ScanEngine_secure_delete_def unlink_def
      no_io_failure_def Let_def split: if_splits option.splits)

lemma ScanEngine_restore_file_True:
  assumes "metadata s nm = Some file_meta"
    and "fs s (engine_quarantine_path eng @ [nm]) = Some blob"
    and "fernet_decrypt cx (b64decode cx (meta_encryption_key file_meta)) (content blob) = Some plain"
    and "meta_original_path file_meta \<noteq> engine_quarantine_path eng @ [nm]"
    and "fst (ScanEngine_restore_file env cx eng nm s)"
  shows "\<exists>g. fs (snd (ScanEngine_restore_file env cx eng nm s)) (meta_original_path file_meta) = Some g \<and>
             content g = plain \<and> st_mode g = original_permissions file_meta"
  using assms
  by (auto simp: ScanEngine_restore_file_def read_file_def write_file_def chmod_def unlink_def
      save_metadata_def load_metadata_def Let_def split: if_splits option.splits)

lemma ScanEngine_restore_file_succeeds:
  assumes "metadata s nm = Some file_meta"
    and "fs s (engine_quarantine_path eng @ [nm]) = Some blob"
    and "fernet_decrypt cx (b64decode cx (meta_encryption_key file_meta)) (content blob) = Some plain"
    and "meta_original_path file_meta \<noteq> engine_quarantine_path eng @ [nm]"
    and "no_io_failure env"
  shows "fst (ScanEngine_restore_file env cx eng nm s)"
  using assms
  by (auto simp: ScanEngine_restore_file_def read_file_def write_file_def chmod_def unlink_def
      save_metadata_def load_metadata_def no_io_failure_def Let_def split: if_splits option.splits)

text \<open>
  Claim C4. Let a file with content \<open>c\<close> be quarantined by the engine and then restored
  under the name the quarantine gave it, with a Fernet implementation that decrypts what
  it encrypted and a base64 that decodes the key it encoded. If no I/O step fails, both
  operations report success; and whenever both report success, the original path holds
  exactly \<open>c\<close> again (with its permission bits), so its digest is the \<open>file_hash\<close>
  recorded in the metadata at quarantine time.
\<close>

theorem ScanEngine_quarantine_restore_lossless:
  assumes "fs s file_path = Some f"
    and "fernet_decrypt cx (quarantine_key eng)
           (fernet_encrypt cx (quarantine_key eng) (content f)) = Some (content f)"
    and "b64decode cx (b64encode cx (quarantine_key eng)) = quarantine_key eng"
  shows "let nm = ScanEngine_quarantine_name env (hexdigest cx (content f)) file_path;
             q = ScanEngine_quarantine_file env cx eng file_path threats s;
             r = ScanEngine_restore_file env' cx eng nm (snd q)
         in (no_io_failure env \<and> no_io_failure env' \<longrightarrow> fst q \<and> fst r) \<and>
            (fst q \<and> fst r \<longrightarrow>
               (\<exists>g entry. fs (snd q) file_path = None \<and> metadata (snd q) nm = Some entry \<and>
                  fs (snd r) file_path = Some g \<and> content g = content f \<and>
                  st_mode g = st_mode f \<and> hexdigest cx (content g) = meta_file_hash entry))"
proof -
  define nm where "nm = ScanEngine_quarantine_name env (hexdigest cx (content f)) file_path"
  define q where "q = ScanEngine_quarantine_file env cx eng file_path threats s"
  define r where "r = ScanEngine_restore_file env' cx eng nm (snd q)"
  define entry where "entry =
    \<lparr>meta_original_path = file_path, meta_timestamp = strftime_now env,
     meta_file_hash = hexdigest cx (content f), meta_threat_info = threats,
     original_permissions = st_mode f,
     meta_encryption_key = b64encode cx (quarantine_key eng)\<rparr>"
  have fresh: "file_path \<noteq> engine_quarantine_path eng @ [nm]"
    unfolding nm_def by (rule ScanEngine_quarantine_path_fresh)
  have after: "fs (snd q) file_path = None \<and> metadata (snd q) nm = Some entry \<and>
      (\<exists>blob. fs (snd q) (engine_quarantine_path eng @ [nm]) = Some blob \<and>
         content blob = fernet_encrypt cx (quarantine_key eng) (content f))" if "fst q"
    using ScanEngine_quarantine_file_True [OF assms(1), of env cx eng threats] that fresh
    by (simp add: q_def nm_def entry_def)
  have restored: "\<exists>g. fs (snd r) file_path = Some g \<and> content g = content f \<and>
      st_mode g = st_mode f" if fq: "fst q" and fr: "fst r"
  proof -
    obtain blob where b: "fs (snd q) (engine_quarantine_path eng @ [nm]) = Some blob"
      "content blob = fernet_encrypt cx (quarantine_key eng) (content f)"
      using after [OF fq] by blast
    have m: "metadata (snd q) nm = Some entry" using after [OF fq] by blast
    have d: "fernet_decrypt cx (b64decode cx (meta_encryption_key entry)) (content blob) =
        Some (content f)"
      using assms(2,3) b(2) by (simp add: entry_def)
    have o: "meta_original_path entry \<noteq> engine_quarantine_path eng @ [nm]"
      using fresh by (simp add: entry_def)
    show ?thesis
      using ScanEngine_restore_file_True [OF m b(1) d o, of env'] fr
      by (simp add: r_def entry_def)
  qed
  have succeed: "fst q \<and> fst r" if n1: "no_io_failure env" and n2: "no_io_failure env'"
  proof -
    have fq: "fst q"
      unfolding q_def using assms(1) n1 by (rule ScanEngine_quarantine_file_succeeds)
    obtain blob where b: "fs (snd q) (engine_quarantine_path eng @ [nm]) = Some blob"
      "content blob = fernet_encrypt cx (quarantine_key eng) (content f)"
      using after [OF fq] by blast
    have m: "metadata (snd q) nm = Some entry" using after [OF fq] by blast
    have d: "fernet_decrypt cx (b64decode cx (meta_encryption_key entry)) (content blob) =
        Some (content f)"
      using assms(2,3) b(2) by (simp add: entry_def)
    have o: "meta_original_path entry \<noteq> engine_quarantine_path eng @ [nm]"
      using fresh by (simp add: entry_def)
    have "fst r"
      unfolding r_def using m b(1) d o n2 by (rule ScanEngine_restore_file_succeeds)
    with fq show ?thesis by simp
  qed
  have "(no_io_failure env \<and> no_io_failure env' \<longrightarrow> fst q \<and> fst r) \<and>
        (fst q \<and> fst r \<longrightarrow>
           (\<exists>g entry. fs (snd q) file_path = None \<and> metadata (snd q) nm = Some entry \<and>
              fs (snd r) file_path = Some g \<and> content g = content f \<and>
              st_mode g = st_mode f \<and> hexdigest cx (content g) = meta_file_hash entry))"
  proof (intro conjI impI)
    assume "no_io_failure env \<and> no_io_failure env'"
    then show "fst q" and "fst r" using succeed by simp_all
  next
    assume qr: "fst q \<and> fst r"
    then obtain g where g: "fs (snd r) file_path = Some g" "content g = content f"
      "st_mode g = st_mode f" using restored by blast
    have "hexdigest cx (content g) = meta_file_hash entry" using g(2) by (simp add: entry_def)
    then show "\<exists>g entry. fs (snd q) file_path = None \<and> metadata (snd q) nm = Some entry \<and>
        fs (snd r) file_path = Some g \<and> content g = content f \<and>
        st_mode g = st_mode f \<and> hexdigest cx (content g) = meta_file_hash entry"
      using after qr g by blast
  qed
  then show ?thesis by (simp add: Let_def nm_def q_def r_def)
qed

lemma example_quarantine_name:
  "ScanEngine_quarantine_name quiet_env (hexdigest toy_crypto (content evil_file))
     [''home'', ''evil.exe''] = ''20240101_120000_00000000_evil.exe''"
  by (simp add: ScanEngine_quarantine_name_def quiet_env_def toy_crypto_def toy_sha256_def
      evil_file_def path_name_def)

theorem ScanEngine_quarantine_restore_lossless_witness:
  "fs engine_store_example [''home'', ''evil.exe''] = Some evil_file \<and>
   fernet_decrypt toy_crypto (quarantine_key example_engine)
     (fernet_encrypt toy_crypto (quarantine_key example_engine) (content evil_file)) =
     Some (content evil_file) \<and>
   b64decode toy_crypto (b64encode toy_crypto (quarantine_key example_engine)) =
     quarantine_key example_engine \<and>
   no_io_failure quiet_env \<and>
   fst (ScanEngine_quarantine_file quiet_env toy_crypto example_engine [''home'', ''evil.exe'']
          [known_malware_threat] engine_store_example) \<and>
   fst (ScanEngine_restore_file quiet_env toy_crypto example_engine
          ''20240101_120000_00000000_evil.exe''
          (snd (ScanEngine_quarantine_file quiet_env toy_crypto example_engine
                  [''home'', ''evil.exe''] [known_malware_threat] engine_store_example))) \<and>
   map_option content
     (fs (snd (ScanEngine_restore_file quiet_env toy_crypto example_engine
                 ''20240101_120000_00000000_evil.exe''
                 (snd (ScanEngine_quarantine_file quiet_env toy_crypto example_engine
                         [''home'', ''evil.exe''] [known_malware_threat] engine_store_example))))
        [''home'', ''evil.exe'']) = Some [77, 90, 144]"
proof -
  have h1: "fs engine_store_example [''home'', ''evil.exe''] = Some evil_file"
    by (simp add: engine_store_example_def)
  have h2: "fernet_decrypt toy_crypto (quarantine_key example_engine)
     (fernet_encrypt toy_crypto (quarantine_key example_engine) (content evil_file)) =
     Some (content evil_file)"
    by (simp add: toy_crypto_def)
  have h3: "b64decode toy_crypto (b64encode toy_crypto (quarantine_key example_engine)) =
     quarantine_key example_engine"
    by (simp add: toy_crypto_def example_engine_def)
  have n: "no_io_failure quiet_env"
    by (simp add: no_io_failure_def quiet_env_def)
  note main = ScanEngine_quarantine_restore_lossless [OF h1 h2 h3, where env = quiet_env
      and env' = quiet_env and threats = "[known_malware_threat]",
      unfolded Let_def example_quarantine_name]
  have ok: "fst (ScanEngine_quarantine_file quiet_env toy_crypto example_engine
        [''home'', ''evil.exe''] [known_malware_threat] engine_store_example) \<and>
      fst (ScanEngine_restore_file quiet_env toy_crypto example_engine
        ''20240101_120000_00000000_evil.exe''
        (snd (ScanEngine_quarantine_file quiet_env toy_crypto example_engine
                [''home'', ''evil.exe''] [known_malware_threat] engine_store_example)))"
    using main n by blast
  then obtain g where "fs (snd (ScanEngine_restore_file quiet_env toy_crypto example_engine
        ''20240101_120000_00000000_evil.exe''
        (snd (ScanEngine_quarantine_file quiet_env toy_crypto example_engine
                [''home'', ''evil.exe''] [known_malware_threat] engine_store_example))))
      [''home'', ''evil.exe''] = Some g" and "content g = content evil_file"
    using main by blast
  then have "map_option content
     (fs (snd (ScanEngine_restore_file quiet_env toy_crypto example_engine
                 ''20240101_120000_00000000_evil.exe''
                 (snd (ScanEngine_quarantine_file quiet_env toy_crypto example_engine
                         [''home'', ''evil.exe''] [known_malware_threat] engine_store_example))))
        [''home'', ''evil.exe'']) = Some [77, 90, 144]"
    by (simp add: evil_file_def)
  then show ?thesis using h1 h2 h3 n ok by blast
qed
















end
